theory Spec2Isabelle
  imports Main "HOL-Library.Sublist" "HOL-Library.Char_ord" "HOL-Library.List_Lexorder"
begin

section \<open>TaskFlow job manager: a shallow embedding of app.js\<close>

text \<open>
  The application keeps job records in an IndexedDB object store keyed by \<open>id\<close>, mirrors
  them in the global \<open>AppState\<close>, and renders them as a dashboard, a kanban board or a
  table. The embedding passes \<open>AppState\<close> and the object store explicitly, returns what a
  render function puts on the page as a value, and turns every rejected promise and every
  thrown exception into an \<open>Inl\<close> result.

  JavaScript strings are modelled as \<open>string\<close>, read as ASCII text: \<open>toLowerCase\<close> maps
  the letters A to Z and \<open>trim\<close> strips the ASCII white space, and both leave every other
  character alone. The page elements the script looks up by id are taken to exist.
\<close>

subsection \<open>String builtins\<close>

definition lower_char :: "char \<Rightarrow> char" where
  "lower_char c =
     (let n = (of_char c :: nat) in if 65 \<le> n \<and> n \<le> 90 then char_of (n + 32) else c)"

definition toLowerCase :: "string \<Rightarrow> string" where
  "toLowerCase s = map lower_char s"

text \<open>\<open>s.includes(q)\<close>: \<open>q\<close> occurs in \<open>s\<close> as a contiguous run of characters.\<close>

fun str_includes :: "string \<Rightarrow> string \<Rightarrow> bool" where
  "str_includes [] q = (q = [])"
| "str_includes (c # s) q = (prefix q (c # s) \<or> str_includes s q)"

text \<open>\<open>s.split(',')\<close>: the pieces between commas; the empty string gives one empty piece.\<close>

fun split_comma :: "string \<Rightarrow> string list" where
  "split_comma [] = [[]]"
| "split_comma (c # cs) =
     (if c = CHR '','' then [] # split_comma cs
      else (case split_comma cs of [] \<Rightarrow> [[c]] | w # ws \<Rightarrow> (c # w) # ws))"

definition is_space :: "char \<Rightarrow> bool" where
  "is_space c = ((of_char c :: nat) \<in> {9, 10, 11, 12, 13, 32})"

definition trim :: "string \<Rightarrow> string" where
  "trim s = rev (dropWhile is_space (rev (dropWhile is_space s)))"

text \<open>\<open>xs.findIndex(p)\<close>: the index of the first element satisfying \<open>p\<close>, or \<open>-1\<close>.\<close>

fun findIndex_from :: "('a \<Rightarrow> bool) \<Rightarrow> 'a list \<Rightarrow> int \<Rightarrow> int" where
  "findIndex_from p [] k = - 1"
| "findIndex_from p (x # xs) k = (if p x then k else findIndex_from p xs (k + 1))"

definition findIndex :: "('a \<Rightarrow> bool) \<Rightarrow> 'a list \<Rightarrow> int" where
  "findIndex p xs = findIndex_from p xs 0"

subsection \<open>Data model\<close>

text \<open>The object built by \<open>handleSaveJob\<close>; every stored record has this shape.\<close>

record job =
  job_id :: string
  title :: string
  desc :: string
  status :: string
  priority :: string
  dueDate :: string
  tags :: "string list"
  updatedAt :: string

record AppState =
  jobs :: "job list"
  view :: string
  filter_str :: string
  darkMode :: bool

datatype error = RequestError | TypeError

subsection \<open>The IndexedDB wrapper\<close>

text \<open>
  The object store holds at most one record per key and \<open>getAll\<close> lists the records in
  ascending key order, so the store is a list of records kept in the order of their ids.
  \<open>put\<close> replaces the record with the same key or inserts a new one; \<open>delete\<close> removes
  every record with the key, and it is not an error when there is none. Whether a request
  ends in \<open>onsuccess\<close> or in \<open>onerror\<close> is decided by the browser: it is a parameter of
  each wrapper call.
\<close>

type_synonym store = "job list"

datatype request = Succeeds | Fails

fun store_put :: "job \<Rightarrow> store \<Rightarrow> store" where
  "store_put j [] = [j]"
| "store_put j (k # ks) =
     (if job_id j = job_id k then j # ks
      else if job_id j < job_id k then j # k # ks
      else k # store_put j ks)"

definition store_delete :: "string \<Rightarrow> store \<Rightarrow> store" where
  "store_delete i db = filter (\<lambda>k. job_id k \<noteq> i) db"

definition getAllJobs :: "request \<Rightarrow> store \<Rightarrow> error + job list" where
  "getAllJobs r db = (case r of Succeeds \<Rightarrow> Inr db | Fails \<Rightarrow> Inl RequestError)"

definition addJob :: "request \<Rightarrow> job \<Rightarrow> store \<Rightarrow> error + store" where
  "addJob r j db = (case r of Succeeds \<Rightarrow> Inr (store_put j db) | Fails \<Rightarrow> Inl RequestError)"

definition deleteJob :: "request \<Rightarrow> string \<Rightarrow> store \<Rightarrow> error + store" where
  "deleteJob r i db =
     (case r of Succeeds \<Rightarrow> Inr (store_delete i db) | Fails \<Rightarrow> Inl RequestError)"

text \<open>The store as the wrapper maintains it: ids strictly ascending, hence unique.\<close>

definition store_ok :: "store \<Rightarrow> bool" where
  "store_ok db = sorted_wrt (<) (map job_id db)"

subsection \<open>Loading and sorting\<close>

text \<open>
  \<open>new Date(a.dueDate) - new Date(b.dueDate)\<close>: the difference of the two time values, or
  NaN (\<open>None\<close>) when either string is not a date. What \<open>new Date\<close> makes of a string is the
  browser's business and is the parameter \<open>parse\<close>.
\<close>

definition compare_dueDate :: "(string \<Rightarrow> int option) \<Rightarrow> job \<Rightarrow> job \<Rightarrow> int option" where
  "compare_dueDate parse a b =
     (case (parse (dueDate a), parse (dueDate b)) of
        (Some x, Some y) \<Rightarrow> Some (x - y)
      | _ \<Rightarrow> None)"

text \<open>
  \<open>Array.prototype.sort\<close> reads a NaN from the comparator as \<open>+0\<close> and is stable. Its
  result is fixed by the language only when the comparator is consistent; the model is a
  stable insertion sort, one of the orders an engine may produce otherwise.
\<close>

definition sort_order :: "int option \<Rightarrow> int" where
  "sort_order v = (case v of None \<Rightarrow> 0 | Some d \<Rightarrow> d)"

fun sort_insert :: "('a \<Rightarrow> 'a \<Rightarrow> int option) \<Rightarrow> 'a \<Rightarrow> 'a list \<Rightarrow> 'a list" where
  "sort_insert cmp x [] = [x]"
| "sort_insert cmp x (y # ys) =
     (if sort_order (cmp x y) \<le> 0 then x # y # ys else y # sort_insert cmp x ys)"

fun array_sort :: "('a \<Rightarrow> 'a \<Rightarrow> int option) \<Rightarrow> 'a list \<Rightarrow> 'a list" where
  "array_sort cmp [] = []"
| "array_sort cmp (x # xs) = sort_insert cmp x (array_sort cmp xs)"

definition loadJobs ::
  "(string \<Rightarrow> int option) \<Rightarrow> request \<Rightarrow> AppState \<Rightarrow> store \<Rightarrow> error + AppState" where
  "loadJobs parse r s db =
     (case getAllJobs r db of
        Inl e \<Rightarrow> Inl e
      | Inr js \<Rightarrow> Inr (s\<lparr>jobs := array_sort (compare_dueDate parse) js\<rparr>))"

subsection \<open>Rendering\<close>

datatype column = Todo | InProgress | Review | Done

text \<open>The four column elements with their cards, and the four count labels.\<close>

record kanban =
  col_todo :: "job list"
  col_in_progress :: "job list"
  col_review :: "job list"
  col_done :: "job list"
  count_todo :: nat
  count_progress :: nat
  count_review :: nat
  count_done :: nat

definition cleared :: kanban where
  "cleared = \<lparr>col_todo = [], col_in_progress = [], col_review = [], col_done = [],
              count_todo = 0, count_progress = 0, count_review = 0, count_done = 0\<rparr>"



text \<open>\<open>columns[s].appendChild(card); counts[s]++\<close> for an own key \<open>s\<close> of \<open>columns\<close>.\<close>

fun appendChild :: "column \<Rightarrow> job \<Rightarrow> kanban \<Rightarrow> kanban" where
  "appendChild Todo j k = k\<lparr>col_todo := col_todo k @ [j], count_todo := count_todo k + 1\<rparr>"
| "appendChild InProgress j k =
     k\<lparr>col_in_progress := col_in_progress k @ [j], count_progress := count_progress k + 1\<rparr>"
| "appendChild Review j k =
     k\<lparr>col_review := col_review k @ [j], count_review := count_review k + 1\<rparr>"
| "appendChild Done j k = k\<lparr>col_done := col_done k @ [j], count_done := count_done k + 1\<rparr>"

text \<open>
  \<open>columns\<close> is an object literal, so \<open>columns[key]\<close> finds the four own keys and, through
  the prototype chain, the properties of \<open>Object.prototype\<close>; these are functions (and
  \<open>__proto__\<close> an object): truthy values without an \<open>appendChild\<close> method.
\<close>

definition Object_prototype :: "string list" where
  "Object_prototype =
     [''constructor'', ''hasOwnProperty'', ''isPrototypeOf'', ''propertyIsEnumerable'',
      ''toLocaleString'', ''toString'', ''valueOf'', ''__proto__'',
      ''__defineGetter__'', ''__defineSetter__'', ''__lookupGetter__'', ''__lookupSetter__'']"

datatype property = Own column | Inherited | Undefined


definition columns_get :: "string \<Rightarrow> property" where
  "columns_get key =
     (if key = ''todo'' then Own Todo
      else if key = ''in-progress'' then Own InProgress
      else if key = ''review'' then Own Review
      else if key = ''done'' then Own Done
      else if key \<in> set Object_prototype then Inherited
      else Undefined)"

text \<open>The \<open>forEach\<close> of \<open>renderKanban\<close>; calling the missing method throws a TypeError.\<close>

fun place_cards :: "job list \<Rightarrow> kanban \<Rightarrow> error + kanban" where
  "place_cards [] k = Inr k"
| "place_cards (j # js) k =
     (case columns_get (status j) of
        Undefined \<Rightarrow> place_cards js k
      | Own c \<Rightarrow> place_cards js (appendChild c j k)
      | Inherited \<Rightarrow> Inl TypeError)"

definition renderKanban :: "job list \<Rightarrow> error + kanban" where
  "renderKanban js = place_cards js cleared"

datatype screen =
  Recent "job list"
| EmptyState
| Board kanban
| Rows "job list"
| Untouched

definition renderRecentActivity :: "job list \<Rightarrow> screen" where
  "renderRecentActivity js = (if length js = 0 then EmptyState else Recent (take 5 js))"

definition renderList :: "job list \<Rightarrow> screen" where
  "renderList js = Rows js"


record stats =
  total :: nat
  active :: nat
  completed :: nat
  pending :: nat

definition updateStats :: "AppState \<Rightarrow> stats" where
  "updateStats s =
     \<lparr>total = length (jobs s),
      active = length (filter (\<lambda>j. status j = ''in-progress'') (jobs s)),
      completed = length (filter (\<lambda>j. status j = ''done'') (jobs s)),
      pending = length (filter (\<lambda>j. status j = ''todo'' \<or> status j = ''review'') (jobs s))\<rparr>"

definition passes :: "string \<Rightarrow> job \<Rightarrow> bool" where
  "passes query j =
     (if query = [] then True
      else str_includes (toLowerCase (title j)) query
           \<or> list_ex (\<lambda>t. str_includes (toLowerCase t) query) (tags j))"

definition filteredJobs :: "AppState \<Rightarrow> job list" where
  "filteredJobs s = filter (passes (filter_str s)) (jobs s)"

definition renderCurrentView :: "AppState \<Rightarrow> error + screen \<times> stats" where
  "renderCurrentView s =
     (case (if view s = ''dashboard'' then Inr (renderRecentActivity (filteredJobs s))
            else if view s = ''kanban'' then
              (case renderKanban (filteredJobs s) of Inl e \<Rightarrow> Inl e | Inr k \<Rightarrow> Inr (Board k))
            else if view s = ''list'' then Inr (renderList (filteredJobs s))
            else Inr Untouched) of
        Inl e \<Rightarrow> Inl e
      | Inr scr \<Rightarrow> Inr (scr, updateStats s))"

subsection \<open>Event handlers\<close>

text \<open>
  A handler returns what it threw or rendered (\<open>None\<close>: it rendered nothing), together with
  \<open>AppState\<close> and the store as it leaves them, also when it throws.
\<close>

type_synonym outcome = "(error + (screen \<times> stats) option) \<times> AppState \<times> store"

definition rendered :: "AppState \<Rightarrow> error + (screen \<times> stats) option" where
  "rendered s = (case renderCurrentView s of Inl e \<Rightarrow> Inl e | Inr v \<Rightarrow> Inr (Some v))"

text \<open>
  The click listener of a navigation link with \<open>data-view = viewName\<close>. After the
  assignment to \<open>AppState.view\<close> it reads \<open>views[viewName].classList\<close>, which throws
  unless \<open>viewName\<close> is one of the three keys of \<open>views\<close>.
\<close>

definition nav_click :: "string \<Rightarrow> AppState \<Rightarrow> store \<Rightarrow> outcome" where
  "nav_click viewName s db =
     (let s' = s\<lparr>view := viewName\<rparr> in
      if viewName = ''dashboard'' \<or> viewName = ''kanban'' \<or> viewName = ''list''
      then (rendered s', s', db)
      else (Inl TypeError, s', db))"


definition delete_click ::
  "(string \<Rightarrow> int option) \<Rightarrow> bool \<Rightarrow> request \<Rightarrow> request \<Rightarrow> job \<Rightarrow> AppState \<Rightarrow> store \<Rightarrow> outcome"
  where
  "delete_click parse confirmed r1 r2 j s db =
     (if confirmed then
        (case deleteJob r1 (job_id j) db of
           Inl e \<Rightarrow> (Inl e, s, db)
         | Inr db' \<Rightarrow>
            (case loadJobs parse r2 s db' of
               Inl e \<Rightarrow> (Inl e, s, db')
             | Inr s' \<Rightarrow> (rendered s', s', db')))
      else (Inr None, s, db))"

text \<open>The drop listener of a kanban column with \<open>data-status = newStatus\<close>.\<close>

definition drop_handler :: "request \<Rightarrow> string \<Rightarrow> string \<Rightarrow> AppState \<Rightarrow> store \<Rightarrow> outcome" where
  "drop_handler r jobId newStatus s db =
     (let jobIndex = findIndex (\<lambda>j. job_id j = jobId) (jobs s) in
      if jobIndex > - 1 \<and> status (jobs s ! nat jobIndex) \<noteq> newStatus then
        (let s' = s\<lparr>jobs := (jobs s)[nat jobIndex :=
                           (jobs s ! nat jobIndex)\<lparr>status := newStatus\<rparr>]\<rparr> in
         case addJob r (jobs s' ! nat jobIndex) db of
           Inl e \<Rightarrow> (Inl e, s', db)
         | Inr db' \<Rightarrow> (rendered s', s', db'))
      else (Inr None, s, db))"

text \<open>The values of the form's inputs when it is submitted.\<close>

record form =
  f_id :: string
  f_title :: string
  f_desc :: string
  f_status :: string
  f_priority :: string
  f_date :: string
  f_tags :: string

text \<open>
  \<open>uuid\<close> is what \<open>crypto.randomUUID()\<close> returns and \<open>now\<close> what
  \<open>new Date().toISOString()\<close> returns at the moment of the call.
\<close>

definition form_job :: "string \<Rightarrow> string \<Rightarrow> form \<Rightarrow> job" where
  "form_job uuid now f =
     \<lparr>job_id = (if f_id f = [] then uuid else f_id f),
      title = f_title f,
      desc = f_desc f,
      status = f_status f,
      priority = f_priority f,
      dueDate = f_date f,
      tags = filter (\<lambda>t. t \<noteq> []) (map trim (split_comma (f_tags f))),
      updatedAt = now\<rparr>"

definition handleSaveJob ::
  "(string \<Rightarrow> int option) \<Rightarrow> string \<Rightarrow> string \<Rightarrow> request \<Rightarrow> request \<Rightarrow> form \<Rightarrow>
   AppState \<Rightarrow> store \<Rightarrow> outcome" where
  "handleSaveJob parse uuid now r1 r2 f s db =
     (case addJob r1 (form_job uuid now f) db of
        Inl e \<Rightarrow> (Inl e, s, db)
      | Inr db' \<Rightarrow>
         (case loadJobs parse r2 s db' of
            Inl e \<Rightarrow> (Inl e, s, db')
          | Inr s' \<Rightarrow> (rendered s', s', db')))"

text \<open>
  Modelled from the spec: the page markup that declares the form and its required inputs is
  not among the sources, and \<open>handleSaveJob\<close> itself checks nothing. The spec's "Submit
  form: validate required fields are non-empty; construct or update a job record; upsert;
  reload; close form; re-render" is the browser's check of the required inputs, after which
  the submit event reaches the listener. \<open>required\<close> lists the inputs the markup marks as
  required.
\<close>

definition submit_form ::
  "(form \<Rightarrow> string) list \<Rightarrow> (string \<Rightarrow> int option) \<Rightarrow> string \<Rightarrow> string \<Rightarrow> request \<Rightarrow>
   request \<Rightarrow> form \<Rightarrow> AppState \<Rightarrow> store \<Rightarrow> outcome" where
  "submit_form required parse uuid now r1 r2 f s db =
     (if list_ex (\<lambda>field. field f = []) required then (Inr None, s, db)
      else handleSaveJob parse uuid now r1 r2 f s db)"

subsection \<open>Notions used in the statements\<close>


text \<open>\<open>AppState.jobs\<close> is what a reload from the store would give.\<close>

definition in_sync :: "(string \<Rightarrow> int option) \<Rightarrow> AppState \<Rightarrow> store \<Rightarrow> bool" where
  "in_sync parse s db = (jobs s = array_sort (compare_dueDate parse) db)"

text \<open>Sample data: a job by id, title, status, due date and tags, and six parsed dates.\<close>

definition sample :: "string \<Rightarrow> string \<Rightarrow> string \<Rightarrow> string \<Rightarrow> string list \<Rightarrow> job" where
  "sample i t st d tg =
     \<lparr>job_id = i, title = t, desc = [], status = st, priority = ''high'', dueDate = d,
      tags = tg, updatedAt = ''2024-05-01T09:00:00.000Z''\<rparr>"

definition sample_dates :: "string \<Rightarrow> int option" where
  "sample_dates =
     map_of [(''2024-06-01'', 1717200000000), (''2024-06-02'', 1717286400000),
             (''2024-06-03'', 1717372800000), (''2024-06-04'', 1717459200000),
             (''2024-06-05'', 1717545600000), (''2024-06-06'', 1717632000000)]"

definition sample_state :: "job list \<Rightarrow> string \<Rightarrow> string \<Rightarrow> AppState" where
  "sample_state js v q = \<lparr>jobs = js, view = v, filter_str = q, darkMode = True\<rparr>"


definition six_jobs :: "job list" where
  "six_jobs =
     [sample ''a'' ''Draft spec'' ''todo'' ''2024-06-01'' [''writing''],
      sample ''b'' ''Review PR'' ''review'' ''2024-06-02'' [''Code''],
      sample ''c'' ''Ship'' ''done'' ''2024-06-03'' [],
      sample ''d'' ''Plan'' ''todo'' ''2024-06-04'' [],
      sample ''e'' ''Test'' ''in-progress'' ''2024-06-05'' [],
      sample ''f'' ''Retro'' ''archived'' ''2024-06-06'' []]"


definition untitled_form :: form where
  "untitled_form =
     \<lparr>f_id = [], f_title = [], f_desc = [], f_status = ''todo'', f_priority = ''low'',
      f_date = ''2024-06-02'', f_tags = ''x, y''\<rparr>"

section \<open>Properties\<close>

subsection \<open>Builtins\<close>

lemma findIndex_from_none: "(\<forall>x\<in>set xs. \<not> p x) \<Longrightarrow> findIndex_from p xs k = - 1"
  by (induction xs arbitrary: k) auto

lemma findIndex_from_some:
  "i < length xs \<Longrightarrow> p (xs ! i) \<Longrightarrow> (\<forall>m<i. \<not> p (xs ! m)) \<Longrightarrow> findIndex_from p xs k = k + int i"
proof (induction xs arbitrary: k i)
  case Nil
  then show ?case by simp
next
  case (Cons x xs)
  show ?case
  proof (cases i)
    case 0
    with Cons.prems show ?thesis by simp
  next
    case (Suc n)
    with Cons.prems have "\<not> p x" by auto
    moreover have "findIndex_from p xs (k + 1) = (k + 1) + int n"
      using Cons.prems Suc by (intro Cons.IH) auto
    ultimately show ?thesis using Suc by simp
  qed
qed

lemma findIndex_none: "(\<forall>x\<in>set xs. \<not> p x) \<Longrightarrow> findIndex p xs = - 1"
  by (simp add: findIndex_def findIndex_from_none)

lemma findIndex_first:
  "i < length xs \<Longrightarrow> p (xs ! i) \<Longrightarrow> (\<forall>m<i. \<not> p (xs ! m)) \<Longrightarrow> findIndex p xs = int i"
  by (simp add: findIndex_def findIndex_from_some)

lemma findIndex_cases:
  "(findIndex p xs = - 1 \<and> (\<forall>x\<in>set xs. \<not> p x))
   \<or> (\<exists>i<length xs. findIndex p xs = int i \<and> p (xs ! i) \<and> (\<forall>m<i. \<not> p (xs ! m)))"
proof (cases "\<exists>x\<in>set xs. p x")
  case False
  then show ?thesis by (simp add: findIndex_none)
next
  case True
  then have ex: "\<exists>i. i < length xs \<and> p (xs ! i)"
    by (auto simp: in_set_conv_nth)
  define i where "i = (LEAST i. i < length xs \<and> p (xs ! i))"
  have i: "i < length xs \<and> p (xs ! i)"
    unfolding i_def using ex by (rule LeastI_ex)
  have least: "\<forall>m<i. \<not> p (xs ! m)"
  proof (intro allI impI notI)
    fix m assume "m < i" and "p (xs ! m)"
    then have "m < length xs \<and> p (xs ! m)" using i by simp
    then have "i \<le> m" unfolding i_def by (rule Least_le)
    with \<open>m < i\<close> show False by simp
  qed
  have "findIndex p xs = int i"
    using i least by (intro findIndex_first) auto
  with i least show ?thesis by blast
qed





lemma lower_Code: "toLowerCase ''Code'' = ''code''"
  by code_simp

subsection \<open>Sorting by due date\<close>



lemma sort_insert_map:
  assumes "\<And>a b. cmp (f a) (f b) = cmp a b"
  shows "sort_insert cmp (f x) (map f ys) = map f (sort_insert cmp x ys)"
  by (induction ys) (simp_all add: assms)

lemma array_sort_map:
  assumes "\<And>a b. cmp (f a) (f b) = cmp a b"
  shows "array_sort cmp (map f xs) = map f (array_sort cmp xs)"
  by (induction xs) (simp_all add: sort_insert_map [of cmp f, OF assms])

lemma set_sort_insert: "set (sort_insert cmp x ys) = insert x (set ys)"
  by (induction ys) auto

lemma set_array_sort: "set (array_sort cmp xs) = set xs"
  by (induction xs) (simp_all add: set_sort_insert)

lemma distinct_sort_insert:
  "distinct (map f (sort_insert cmp x ys)) = distinct (map f (x # ys))"
  by (induction ys) (auto simp: set_sort_insert)

lemma distinct_array_sort: "distinct (map f (array_sort cmp xs)) = distinct (map f xs)"
  by (induction xs) (simp_all add: distinct_sort_insert set_array_sort)

subsection \<open>The kanban board\<close>


lemma columns_get_Inherited: "columns_get key = Inherited \<longleftrightarrow> key \<in> set Object_prototype"
  by (auto simp: columns_get_def Object_prototype_def)




lemma place_cards_inherited:
  "\<exists>j\<in>set js. status j \<in> set Object_prototype \<Longrightarrow> place_cards js k = Inl TypeError"
proof (induction js arbitrary: k)
  case Nil
  then show ?case by simp
next
  case (Cons j js)
  show ?case
  proof (cases "columns_get (status j)")
    case Inherited
    then show ?thesis by simp
  next
    case (Own c)
    then have "status j \<notin> set Object_prototype"
      using columns_get_Inherited [of "status j"] by simp
    with Cons.prems have "\<exists>j\<in>set js. status j \<in> set Object_prototype" by auto
    then show ?thesis using Own Cons.IH by simp
  next
    case Undefined
    then have "status j \<notin> set Object_prototype"
      using columns_get_Inherited [of "status j"] by simp
    with Cons.prems have "\<exists>j\<in>set js. status j \<in> set Object_prototype" by auto
    then show ?thesis using Undefined Cons.IH by simp
  qed
qed

lemma renderKanban_inherited:
  "\<exists>j\<in>set js. status j \<in> set Object_prototype \<Longrightarrow> renderKanban js = Inl TypeError"
  by (simp add: renderKanban_def place_cards_inherited)

subsection \<open>The store and the copy in memory\<close>

lemma store_ok_distinct: "store_ok db \<Longrightarrow> distinct (map job_id db)"
  by (simp add: store_ok_def strict_sorted_iff)

lemma store_put_replace:
  assumes "store_ok db" and "k \<in> set db" and "job_id j = job_id k"
  shows "store_put j db = map (\<lambda>x. if job_id x = job_id k then j else x) db"
  using assms
proof (induction db)
  case Nil
  then show ?case by simp
next
  case (Cons h db)
  then have above: "\<forall>x\<in>set db. job_id h < job_id x" and ok: "store_ok db"
    by (simp_all add: store_ok_def)
  show ?case
  proof (cases "job_id h = job_id k")
    case True
    then have "map (\<lambda>x. if job_id x = job_id k then j else x) db = db"
      using above by (intro map_idI) auto
    then show ?thesis using True Cons.prems(3) by simp
  next
    case False
    then have "k \<in> set db" using Cons.prems(2) by auto
    moreover from this have "job_id h < job_id k" using above by simp
    ultimately show ?thesis
      using False Cons.prems(3) Cons.IH [OF ok] by simp
  qed
qed

lemma list_update_as_map:
  assumes "distinct (map job_id xs)" and "i < length xs"
  shows "xs[i := g (xs ! i)] = map (\<lambda>x. if job_id x = job_id (xs ! i) then g x else x) xs"
proof (rule nth_equalityI)
  show "length (xs[i := g (xs ! i)]) =
        length (map (\<lambda>x. if job_id x = job_id (xs ! i) then g x else x) xs)"
    by simp
next
  fix m assume "m < length (xs[i := g (xs ! i)])"
  then have m: "m < length xs" by simp
  have "job_id (xs ! m) = job_id (xs ! i) \<longleftrightarrow> m = i"
    using nth_eq_iff_index_eq [OF assms(1), of m i] m assms(2) by simp
  then show "xs[i := g (xs ! i)] ! m =
        map (\<lambda>x. if job_id x = job_id (xs ! i) then g x else x) xs ! m"
    using m assms(2) by (cases "m = i") simp_all
qed

lemma compare_dueDate_status:
  "compare_dueDate parse
     (if job_id a = i then a\<lparr>status := st\<rparr> else a)
     (if job_id b = i then b\<lparr>status := st\<rparr> else b) = compare_dueDate parse a b"
  by (auto simp: compare_dueDate_def split: option.splits)

lemma drop_handler_in_sync:
  assumes ok: "store_ok db" and sync: "in_sync parse s db"
    and drop: "drop_handler Succeeds jobId newStatus s db = (res, s', db')"
  shows "in_sync parse s' db'"
proof -
  let ?p = "\<lambda>j. job_id j = jobId"
  let ?upd = "\<lambda>x. if job_id x = jobId then x\<lparr>status := newStatus\<rparr> else x"
  consider (none) "findIndex ?p (jobs s) = - 1"
    | (found) i where "i < length (jobs s)" "findIndex ?p (jobs s) = int i"
        "job_id (jobs s ! i) = jobId"
    using findIndex_cases [of ?p "jobs s"] by blast
  then show ?thesis
  proof cases
    case none
    with drop sync show ?thesis by (simp add: drop_handler_def)
  next
    case found
    show ?thesis
    proof (cases "status (jobs s ! i) = newStatus")
      case True
      with drop sync found show ?thesis by (simp add: drop_handler_def)
    next
      case False
      let ?j = "(jobs s ! i)\<lparr>status := newStatus\<rparr>"
      have s': "jobs s' = (jobs s)[i := ?j]" and db': "db' = store_put ?j db"
        using drop found False by (auto simp: drop_handler_def addJob_def Let_def)
      have mem: "jobs s ! i \<in> set db"
        using found(1) sync set_array_sort [of "compare_dueDate parse" db]
        by (metis in_sync_def nth_mem)
      have dist: "distinct (map job_id (jobs s))"
        using ok sync by (simp add: in_sync_def distinct_array_sort store_ok_distinct)
      have "jobs s' = map ?upd (jobs s)"
        using list_update_as_map [OF dist found(1), of "\<lambda>x. x\<lparr>status := newStatus\<rparr>"]
        by (simp add: s' found(3))
      moreover have "db' = map ?upd db"
      proof -
        have "store_put ?j db = map (\<lambda>x. if job_id x = job_id (jobs s ! i) then ?j else x) db"
          using ok mem by (intro store_put_replace) simp_all
        also have "\<dots> = map ?upd db"
        proof (rule map_cong [OF refl])
          fix x assume x: "x \<in> set db"
          have "x = jobs s ! i" if "job_id x = job_id (jobs s ! i)"
            using store_ok_distinct [OF ok] x mem that
            by (meson distinct_map inj_onD)
          then show "(if job_id x = job_id (jobs s ! i) then ?j else x) = ?upd x"
            using found(3) by auto
        qed
        finally show ?thesis by (simp add: db')
      qed
      moreover have "array_sort (compare_dueDate parse) (map ?upd db)
                   = map ?upd (array_sort (compare_dueDate parse) db)"
        by (rule array_sort_map) (rule compare_dueDate_status)
      ultimately show ?thesis
        using sync by (simp add: in_sync_def)
    qed
  qed
qed

lemma handleSaveJob_in_sync:
  assumes "handleSaveJob parse uuid now Succeeds Succeeds f s db = (res, s', db')"
  shows "db' = store_put (form_job uuid now f) db \<and> in_sync parse s' db'"
  using assms
  by (auto simp: handleSaveJob_def addJob_def loadJobs_def getAllJobs_def in_sync_def)

lemma delete_click_in_sync:
  assumes "delete_click parse True Succeeds Succeeds j s db = (res, s', db')"
  shows "db' = store_delete (job_id j) db \<and> in_sync parse s' db'"
  using assms
  by (auto simp: delete_click_def deleteJob_def loadJobs_def getAllJobs_def in_sync_def)

lemma drop_handler_updatedAt:
  "map updatedAt (jobs (fst (snd (drop_handler r jobId newStatus s db)))) = map updatedAt (jobs s)"
proof -
  have "map updatedAt (xs[i := (xs ! i)\<lparr>status := newStatus\<rparr>]) = map updatedAt xs"
    for xs :: "job list" and i
  proof (cases "i < length xs")
    case True
    then show ?thesis by (intro nth_equalityI) (auto simp: nth_list_update)
  next
    case False
    then have "length xs \<le> i" by simp
    then show ?thesis by (simp only: list_update_beyond)
  qed
  then show ?thesis
    by (cases r) (simp_all add: drop_handler_def addJob_def Let_def)
qed

lemma handleSaveJob_writes_unchecked:
  "snd (snd (handleSaveJob parse uuid now Succeeds r2 f s db)) = store_put (form_job uuid now f) db
   \<and> updatedAt (form_job uuid now f) = now \<and> title (form_job uuid now f) = f_title f"
  by (simp add: handleSaveJob_def addJob_def form_job_def split: sum.splits)

subsection \<open>Filtering\<close>




subsection \<open>Kanban columns\<close>

text \<open>
  C2. The claim fails on a job whose status is a property name of \<open>Object.prototype\<close>: the
  lookup \<open>columns[job.status]\<close> finds the inherited property, the guard lets the job
  through, and \<open>appendChild\<close> throws. Such a job is not silently omitted; the render
  stops, and neither the later cards nor the counts nor the statistics are drawn. For all
  other statuses the claim holds (\<open>renderKanban_columns_counts\<close>).
\<close>

theorem renderKanban_inherited_status_throws:
  "columns_get ''constructor'' = Inherited
   \<and> renderKanban [sample ''a'' ''Draft spec'' ''todo'' ''2024-06-01'' [''writing''],
                   sample ''b'' ''Old task'' ''constructor'' ''2024-06-02'' [],
                   sample ''c'' ''Ship'' ''done'' ''2024-06-03'' []] = Inl TypeError
   \<and> renderCurrentView (sample_state
         [sample ''a'' ''Draft spec'' ''todo'' ''2024-06-01'' [''writing''],
          sample ''b'' ''Old task'' ''constructor'' ''2024-06-02'' [],
          sample ''c'' ''Ship'' ''done'' ''2024-06-03'' []] ''kanban'' []) = Inl TypeError"
  by (simp add: columns_get_def Object_prototype_def renderKanban_def sample_def cleared_def
      renderCurrentView_def sample_state_def filteredJobs_def passes_def)

subsection \<open>Summary statistics\<close>

text \<open>
  C3. The four statistics count the whole of \<open>AppState.jobs\<close>: all jobs, those in
  progress, those done, and those in todo or review. Neither the search filter nor the
  active view changes them, and a render that completes shows these values.
\<close>

theorem updateStats_unfiltered:
  "updateStats (s\<lparr>filter_str := q, view := v\<rparr>) =
     \<lparr>total = length (jobs s),
      active = length (filter (\<lambda>j. status j = ''in-progress'') (jobs s)),
      completed = length (filter (\<lambda>j. status j = ''done'') (jobs s)),
      pending = length (filter (\<lambda>j. status j = ''todo'' \<or> status j = ''review'') (jobs s))\<rparr>
   \<and> (renderCurrentView (s\<lparr>filter_str := q, view := v\<rparr>) = Inr (scr, st) \<longrightarrow>
        st = updateStats s)"
  by (auto simp: updateStats_def renderCurrentView_def split: sum.splits if_splits)

theorem updateStats_unfiltered_witness:
  "updateStats (sample_state six_jobs ''list'' ''nonexistent'') =
     \<lparr>total = 6, active = 1, completed = 1, pending = 3\<rparr>
   \<and> renderCurrentView (sample_state six_jobs ''list'' ''nonexistent'') =
       Inr (Rows [], \<lparr>total = 6, active = 1, completed = 1, pending = 3\<rparr>)"
proof -
  have ev: ?thesis by code_simp
  show ?thesis
    using updateStats_unfiltered
      [where s = "sample_state six_jobs ''dashboard'' []" and q = "''nonexistent''"
         and v = "''list''" and scr = "Rows []"
         and st = "\<lparr>total = 6, active = 1, completed = 1, pending = 3\<rparr>"] ev
    by simp
qed

subsection \<open>Reload and dashboard\<close>



subsection \<open>Deleting from the store\<close>



subsection \<open>Dropping a card on a column\<close>

text \<open>
  C9. Let the dragged id belong to a job in memory, at its first index \<open>i\<close>. If the column's
  status differs from the job's, the handler leaves \<open>AppState\<close> with exactly that job's
  status replaced and nothing else changed, and puts that record into the store (which
  stays as it was when the request fails). If the status is the same, nothing is changed,
  written or rendered.
\<close>

theorem drop_changes_status_only:
  assumes "i < length (jobs s)"
    and "job_id (jobs s ! i) = jobId"
    and "\<forall>m<i. job_id (jobs s ! m) \<noteq> jobId"
  shows "(status (jobs s ! i) \<noteq> newStatus \<longrightarrow>
            snd (drop_handler r jobId newStatus s db) =
              (s\<lparr>jobs := (jobs s)[i := (jobs s ! i)\<lparr>status := newStatus\<rparr>]\<rparr>,
               case r of Succeeds \<Rightarrow> store_put ((jobs s ! i)\<lparr>status := newStatus\<rparr>) db
                       | Fails \<Rightarrow> db))
       \<and> (status (jobs s ! i) = newStatus \<longrightarrow>
            drop_handler r jobId newStatus s db = (Inr None, s, db))"
proof -
  have idx: "findIndex (\<lambda>j. job_id j = jobId) (jobs s) = int i"
    using assms by (intro findIndex_first) auto
  show ?thesis
    using assms(1) by (cases r) (simp_all add: drop_handler_def idx addJob_def Let_def)
qed

theorem drop_changes_status_only_witness:
  "snd (drop_handler Succeeds ''b'' ''done'' (sample_state six_jobs ''kanban'' []) six_jobs) =
     (sample_state (six_jobs[1 := sample ''b'' ''Review PR'' ''done'' ''2024-06-02'' [''Code'']])
        ''kanban'' [],
      six_jobs[1 := sample ''b'' ''Review PR'' ''done'' ''2024-06-02'' [''Code'']])
   \<and> drop_handler Succeeds ''b'' ''review'' (sample_state six_jobs ''kanban'' []) six_jobs =
       (Inr None, sample_state six_jobs ''kanban'' [], six_jobs)"
proof -
  have ev: ?thesis by code_simp
  have h1: "1 < length (jobs (sample_state six_jobs ''kanban'' []))"
    by (simp add: sample_state_def six_jobs_def)
  have h2: "job_id (jobs (sample_state six_jobs ''kanban'' []) ! 1) = ''b''"
    by (simp add: sample_state_def six_jobs_def sample_def)
  have h3: "\<forall>m<1. job_id (jobs (sample_state six_jobs ''kanban'' []) ! m) \<noteq> ''b''"
    by (simp add: sample_state_def six_jobs_def sample_def)
  show ?thesis
    using drop_changes_status_only
        [OF h1 h2 h3, where newStatus = "''done''" and r = Succeeds and db = six_jobs]
      drop_changes_status_only
        [OF h1 h2 h3, where newStatus = "''review''" and r = Succeeds and db = six_jobs] ev
    by simp
qed

text \<open>
  C10. A drop whose dragged id matches no job in memory changes nothing: \<open>AppState\<close> and
  the store are as before, and nothing is rendered.
\<close>

theorem drop_unknown_id_noop:
  assumes "jobId \<notin> job_id ` set (jobs s)"
  shows "drop_handler r jobId newStatus s db = (Inr None, s, db)"
proof -
  have "findIndex (\<lambda>j. job_id j = jobId) (jobs s) = - 1"
    using assms by (intro findIndex_none) auto
  then show ?thesis by (simp add: drop_handler_def)
qed

theorem drop_unknown_id_noop_witness:
  "''zz'' \<notin> job_id ` set (jobs (sample_state six_jobs ''kanban'' []))
   \<and> drop_handler Succeeds ''zz'' ''done'' (sample_state six_jobs ''kanban'' []) six_jobs =
       (Inr None, sample_state six_jobs ''kanban'' [], six_jobs)"
proof -
  have h: "''zz'' \<notin> job_id ` set (jobs (sample_state six_jobs ''kanban'' []))"
    by (simp add: sample_state_def six_jobs_def sample_def)
  show ?thesis
    using drop_unknown_id_noop
        [OF h, where r = Succeeds and newStatus = "''done''" and db = six_jobs] h
    by simp
qed

text \<open>
  C6. The claim fails on a drop whose store write is rejected: the listener has already
  assigned the new status in memory and performs no reload, so \<open>AppState.jobs\<close> shows a
  status the store does not hold. The form and the delete listener write first and reload
  (\<open>handleSaveJob_in_sync\<close>, \<open>delete_click_in_sync\<close>); a drop whose write succeeds stays in
  step with the store without reloading (\<open>drop_handler_in_sync\<close>).
\<close>

theorem drop_failed_write_out_of_sync:
  "in_sync sample_dates (sample_state six_jobs ''kanban'' []) six_jobs
   \<and> drop_handler Fails ''a'' ''done'' (sample_state six_jobs ''kanban'' []) six_jobs =
       (Inl RequestError,
        sample_state (six_jobs[0 := sample ''a'' ''Draft spec'' ''done'' ''2024-06-01'' [''writing'']])
          ''kanban'' [],
        six_jobs)
   \<and> \<not> in_sync sample_dates
         (sample_state (six_jobs[0 := sample ''a'' ''Draft spec'' ''done'' ''2024-06-01'' [''writing'']])
            ''kanban'' [])
         six_jobs"
  by code_simp

text \<open>
  C7. The claim fails on a drop: the record written to the store carries the \<open>updatedAt\<close>
  it had before, since the listener changes \<open>status\<close> only and never reads the clock
  (\<open>drop_handler_updatedAt\<close>); \<open>handleSaveJob\<close> stamps the record it writes
  (\<open>handleSaveJob_writes_unchecked\<close>).
\<close>

theorem drop_keeps_old_updatedAt:
  "updatedAt (sample ''a'' ''Draft spec'' ''todo'' ''2024-06-01'' [''writing'']) =
     ''2024-05-01T09:00:00.000Z''
   \<and> snd (snd (drop_handler Succeeds ''a'' ''done''
        (sample_state [sample ''a'' ''Draft spec'' ''todo'' ''2024-06-01'' [''writing'']] ''kanban'' [])
        [sample ''a'' ''Draft spec'' ''todo'' ''2024-06-01'' [''writing'']])) =
       [\<lparr>job_id = ''a'', title = ''Draft spec'', desc = [], status = ''done'',
         priority = ''high'', dueDate = ''2024-06-01'', tags = [''writing''],
         updatedAt = ''2024-05-01T09:00:00.000Z''\<rparr>]"
  by code_simp

subsection \<open>Submitting the form\<close>

text \<open>
  C8. A submission in which a required input is empty changes neither \<open>AppState\<close> nor the
  store; when every required input is filled, the submission is \<open>handleSaveJob\<close>, which
  builds the record and puts it. The check is the one of \<open>submit_form\<close>;
  \<open>handleSaveJob\<close> itself writes whatever the form holds.
\<close>

theorem submit_form_validates_required:
  "(field \<in> set required \<and> field f = [] \<longrightarrow>
      submit_form required parse uuid now r1 r2 f s db = (Inr None, s, db))
   \<and> ((\<forall>field\<in>set required. field f \<noteq> []) \<longrightarrow>
      submit_form required parse uuid now r1 r2 f s db =
        handleSaveJob parse uuid now r1 r2 f s db)"
  by (auto simp: submit_form_def list_ex_iff)

theorem submit_form_validates_required_witness:
  "f_title \<in> set [f_title] \<and> f_title untitled_form = []
   \<and> submit_form [f_title] sample_dates ''uuid-1'' ''2024-05-02T10:00:00.000Z'' Succeeds Succeeds
        untitled_form (sample_state six_jobs ''list'' []) six_jobs =
       (Inr None, sample_state six_jobs ''list'' [], six_jobs)
   \<and> f_title (untitled_form\<lparr>f_title := ''Write tests''\<rparr>) \<noteq> []
   \<and> snd (snd (submit_form [f_title] sample_dates ''uuid-1'' ''2024-05-02T10:00:00.000Z''
        Succeeds Succeeds (untitled_form\<lparr>f_title := ''Write tests''\<rparr>)
        (sample_state six_jobs ''list'' []) six_jobs)) =
       six_jobs @ [\<lparr>job_id = ''uuid-1'', title = ''Write tests'', desc = [], status = ''todo'',
                     priority = ''low'', dueDate = ''2024-06-02'', tags = [''x'', ''y''],
                     updatedAt = ''2024-05-02T10:00:00.000Z''\<rparr>]"
proof -
  have e1: "f_title untitled_form = []"
    by (simp add: untitled_form_def)
  have e2: "snd (snd (handleSaveJob sample_dates ''uuid-1'' ''2024-05-02T10:00:00.000Z''
        Succeeds Succeeds (untitled_form\<lparr>f_title := ''Write tests''\<rparr>)
        (sample_state six_jobs ''list'' []) six_jobs)) =
       six_jobs @ [\<lparr>job_id = ''uuid-1'', title = ''Write tests'', desc = [], status = ''todo'',
                     priority = ''low'', dueDate = ''2024-06-02'', tags = [''x'', ''y''],
                     updatedAt = ''2024-05-02T10:00:00.000Z''\<rparr>]"
    by code_simp
  show ?thesis
    using submit_form_validates_required
      [where field = f_title and required = "[f_title]" and f = untitled_form
         and parse = sample_dates and uuid = "''uuid-1''"
         and now = "''2024-05-02T10:00:00.000Z''" and ?r1.0 = Succeeds and ?r2.0 = Succeeds
         and s = "sample_state six_jobs ''list'' []" and db = six_jobs]
      submit_form_validates_required
      [where field = f_title and required = "[f_title]"
         and f = "untitled_form\<lparr>f_title := ''Write tests''\<rparr>"
         and parse = sample_dates and uuid = "''uuid-1''"
         and now = "''2024-05-02T10:00:00.000Z''" and ?r1.0 = Succeeds and ?r2.0 = Succeeds
         and s = "sample_state six_jobs ''list'' []" and db = six_jobs]
      e1 e2
    by simp
qed

end
